theory Spec2Isabelle
  imports Complex_Main
begin

section \<open>JavaScript numbers\<close>

text \<open>
  The renderer computes with JavaScript numbers. A number is modelled as a real, or one of
  the three IEEE special values the arithmetic of the source can produce: dividing by a
  zero width gives an infinity or NaN, not an exception. The arithmetic on finite values is
  exact (rounding and overflow are not modelled) and zero carries no sign (a zero divisor
  is \<open>+0\<close>, as the width of a bounding rectangle is).
\<close>

datatype number = Fin real | PosInf | NegInf | NaN

fun isFinite :: "number \<Rightarrow> bool" where
  "isFinite (Fin r) = True"
| "isFinite PosInf = False"
| "isFinite NegInf = False"
| "isFinite NaN = False"

fun num_neg :: "number \<Rightarrow> number" where
  "num_neg (Fin a) = Fin (- a)"
| "num_neg PosInf = NegInf"
| "num_neg NegInf = PosInf"
| "num_neg NaN = NaN"

fun num_add :: "number \<Rightarrow> number \<Rightarrow> number" where
  "num_add (Fin a) (Fin b) = Fin (a + b)"
| "num_add (Fin a) PosInf = PosInf"
| "num_add (Fin a) NegInf = NegInf"
| "num_add (Fin a) NaN = NaN"
| "num_add PosInf (Fin b) = PosInf"
| "num_add PosInf PosInf = PosInf"
| "num_add PosInf NegInf = NaN"
| "num_add PosInf NaN = NaN"
| "num_add NegInf (Fin b) = NegInf"
| "num_add NegInf PosInf = NaN"
| "num_add NegInf NegInf = NegInf"
| "num_add NegInf NaN = NaN"
| "num_add NaN b = NaN"

definition num_sub :: "number \<Rightarrow> number \<Rightarrow> number" where
  "num_sub a b = num_add a (num_neg b)"

fun num_mul :: "number \<Rightarrow> number \<Rightarrow> number" where
  "num_mul (Fin a) (Fin b) = Fin (a * b)"
| "num_mul (Fin a) PosInf = (if a = 0 then NaN else if 0 < a then PosInf else NegInf)"
| "num_mul (Fin a) NegInf = (if a = 0 then NaN else if 0 < a then NegInf else PosInf)"
| "num_mul (Fin a) NaN = NaN"
| "num_mul PosInf (Fin b) = (if b = 0 then NaN else if 0 < b then PosInf else NegInf)"
| "num_mul PosInf PosInf = PosInf"
| "num_mul PosInf NegInf = NegInf"
| "num_mul PosInf NaN = NaN"
| "num_mul NegInf (Fin b) = (if b = 0 then NaN else if 0 < b then NegInf else PosInf)"
| "num_mul NegInf PosInf = NegInf"
| "num_mul NegInf NegInf = PosInf"
| "num_mul NegInf NaN = NaN"
| "num_mul NaN b = NaN"

fun num_div :: "number \<Rightarrow> number \<Rightarrow> number" where
  "num_div (Fin a) (Fin b) =
     (if b = 0 then (if a = 0 then NaN else if 0 < a then PosInf else NegInf)
      else Fin (a / b))"
| "num_div (Fin a) PosInf = Fin 0"
| "num_div (Fin a) NegInf = Fin 0"
| "num_div (Fin a) NaN = NaN"
| "num_div PosInf (Fin b) = (if 0 \<le> b then PosInf else NegInf)"
| "num_div PosInf PosInf = NaN"
| "num_div PosInf NegInf = NaN"
| "num_div PosInf NaN = NaN"
| "num_div NegInf (Fin b) = (if 0 \<le> b then NegInf else PosInf)"
| "num_div NegInf PosInf = NaN"
| "num_div NegInf NegInf = NaN"
| "num_div NegInf NaN = NaN"
| "num_div NaN b = NaN"

text \<open>
  The remainder operator \<open>%\<close> truncates the quotient toward zero, so the result has the
  sign of the dividend.
\<close>

definition trunc :: "real \<Rightarrow> int" where
  "trunc q = (if 0 \<le> q then \<lfloor>q\<rfloor> else \<lceil>q\<rceil>)"

fun num_rem :: "number \<Rightarrow> number \<Rightarrow> number" where
  "num_rem (Fin a) (Fin b) = (if b = 0 then NaN else Fin (a - b * of_int (trunc (a / b))))"
| "num_rem (Fin a) PosInf = Fin a"
| "num_rem (Fin a) NegInf = Fin a"
| "num_rem (Fin a) NaN = NaN"
| "num_rem PosInf b = NaN"
| "num_rem NegInf b = NaN"
| "num_rem NaN b = NaN"

text \<open>\<open>Math.PI\<close> is the double nearest to \<open>\<pi>\<close>, the rational \<open>884279719003555 / 2^48\<close>.\<close>

definition Math_PI :: number where
  "Math_PI = Fin (884279719003555 / 281474976710656)"

definition IDLE_ROTATE_SPEED :: number where
  "IDLE_ROTATE_SPEED = Fin (5 / 1000)"

definition DRAG_ROTATE_SPEED :: number where
  "DRAG_ROTATE_SPEED = Fin (4 / 100)"

definition SCALE :: number where
  "SCALE = Fin (4 / 10)"

section \<open>Vectors and rectangles\<close>

text \<open>
  \<open>THREE.Vector3\<close> with the methods the renderer calls. \<open>new THREE.Vector3\<close> without
  arguments is the zero vector.
\<close>

datatype Vector3 = Vector3 (vec_x: number) (vec_y: number) (vec_z: number)

definition Vector3_new :: Vector3 where
  "Vector3_new = Vector3 (Fin 0) (Fin 0) (Fin 0)"

definition multiplyVectors :: "Vector3 \<Rightarrow> Vector3 \<Rightarrow> Vector3" where
  "multiplyVectors a b =
     Vector3 (num_mul (vec_x a) (vec_x b)) (num_mul (vec_y a) (vec_y b))
       (num_mul (vec_z a) (vec_z b))"

definition addVectors :: "Vector3 \<Rightarrow> Vector3 \<Rightarrow> Vector3" where
  "addVectors a b =
     Vector3 (num_add (vec_x a) (vec_x b)) (num_add (vec_y a) (vec_y b))
       (num_add (vec_z a) (vec_z b))"

definition set_y :: "number \<Rightarrow> Vector3 \<Rightarrow> Vector3" where
  "set_y v a = Vector3 (vec_x a) v (vec_z a)"

definition set_z :: "number \<Rightarrow> Vector3 \<Rightarrow> Vector3" where
  "set_z v a = Vector3 (vec_x a) (vec_y a) v"

text \<open>What \<open>getBoundingClientRect\<close> returns.\<close>

record DOMRect =
  rect_left :: number
  rect_top :: number
  rect_width :: number
  rect_height :: number

section \<open>The tracked object\<close>

datatype DiceState = IdleState | HoverState | DragState

text \<open>
  The tweening engine is an external library. The model keeps the tweens the object has
  requested and not cancelled: \<open>gsap.to\<close> adds one, \<open>gsap.killTweensOf\<close> removes those
  of a target. The engine moves the animated fields between frames; no call of this
  repository does, so a frame of the model leaves them where they are.
\<close>

datatype target = Target_scale | Target_position | Target_rotation

datatype goal = To number | By number

record tween =
  tw_target :: target
  tw_x :: "goal option"
  tw_y :: "goal option"
  tw_z :: "goal option"
  tw_duration :: number
  tw_ease :: string

text \<open>
  The calls of the transition protocol, in the order they happen. The source keeps no such
  log: it is added to the object so that the order of the calls can be stated.
\<close>

datatype event =
  Call_setState DiceState DiceState
| Call_exit DiceState
| Assign_state DiceState
| Call_enter DiceState

text \<open>
  \<open>basePosition\<close> and \<open>baseScale\<close> are the private fields \<open>_position\<close> and \<open>_scale\<close>;
  \<open>mesh_position\<close>, \<open>mesh_scale\<close> and \<open>mesh_rotation\<close> are the fields of \<open>mesh\<close>.
\<close>

record DiceCrystal =
  state :: DiceState
  isHovered :: bool
  isDragged :: bool
  mesh_position :: Vector3
  mesh_scale :: Vector3
  mesh_rotation :: Vector3
  position :: Vector3
  basePosition :: Vector3
  scale :: Vector3
  baseScale :: Vector3
  tweens :: "tween list"
  trace :: "event list"

definition gsap_to :: "tween \<Rightarrow> DiceCrystal \<Rightarrow> DiceCrystal" where
  "gsap_to tw d = d\<lparr>tweens := tweens d @ [tw]\<rparr>"

definition gsap_killTweensOf :: "target \<Rightarrow> DiceCrystal \<Rightarrow> DiceCrystal" where
  "gsap_killTweensOf t d = d\<lparr>tweens := filter (\<lambda>tw. tw_target tw \<noteq> t) (tweens d)\<rparr>"

definition record_event :: "event \<Rightarrow> DiceCrystal \<Rightarrow> DiceCrystal" where
  "record_event e d = d\<lparr>trace := trace d @ [e]\<rparr>"

definition uniform_tween :: "target \<Rightarrow> real \<Rightarrow> real \<Rightarrow> tween" where
  "uniform_tween t v dur =
     \<lparr>tw_target = t, tw_x = Some (To (Fin v)), tw_y = Some (To (Fin v)),
      tw_z = Some (To (Fin v)), tw_duration = Fin dur, tw_ease = ''power2.out''\<rparr>"

fun enter :: "DiceState \<Rightarrow> DiceCrystal \<Rightarrow> DiceCrystal" where
  "enter IdleState d =
     gsap_to (uniform_tween Target_scale 1 (4 / 10)) (record_event (Call_enter IdleState) d)"
| "enter HoverState d =
     gsap_to (uniform_tween Target_scale (11 / 10) (4 / 10))
       (record_event (Call_enter HoverState) d)"
| "enter DragState d =
     gsap_to (uniform_tween Target_scale (9 / 10) (2 / 10))
       (gsap_killTweensOf Target_scale
         (gsap_killTweensOf Target_rotation (record_event (Call_enter DragState) d)))"

fun exit :: "DiceState \<Rightarrow> DiceCrystal \<Rightarrow> DiceCrystal" where
  "exit IdleState d = record_event (Call_exit IdleState) d"
| "exit HoverState d =
     gsap_to \<lparr>tw_target = Target_position, tw_x = None, tw_y = Some (To (Fin 0)),
              tw_z = None, tw_duration = Fin (2 / 10), tw_ease = ''power2.out''\<rparr>
       (record_event (Call_exit HoverState) d)"
| "exit DragState d =
     gsap_to \<lparr>tw_target = Target_rotation, tw_x = None,
              tw_y = Some (By (num_mul Math_PI (Fin 2))), tw_z = None,
              tw_duration = Fin (8 / 10), tw_ease = ''power2.out''\<rparr>
       (gsap_killTweensOf Target_scale
         (gsap_killTweensOf Target_rotation (record_event (Call_exit DragState) d)))"

definition setState :: "DiceState \<Rightarrow> DiceCrystal \<Rightarrow> DiceCrystal" where
  "setState newState d =
     (let d0 = record_event (Call_setState (state d) newState) d;
          d1 = exit (state d0) d0;
          d2 = record_event (Assign_state newState) (d1\<lparr>state := newState\<rparr>)
      in enter (state d2) d2)"

definition rotate_y :: "number \<Rightarrow> DiceCrystal \<Rightarrow> DiceCrystal" where
  "rotate_y speed d =
     d\<lparr>mesh_rotation :=
         set_y (num_rem (num_add (vec_y (mesh_rotation d)) speed) (num_mul Math_PI (Fin 2)))
           (mesh_rotation d)\<rparr>"

fun update :: "DiceState \<Rightarrow> DiceCrystal \<Rightarrow> DiceCrystal" where
  "update IdleState d =
     (let d1 = rotate_y IDLE_ROTATE_SPEED d
      in if isDragged d1 then setState DragState d1
         else if isHovered d1 then setState HoverState d1
         else d1)"
| "update HoverState d =
     (if isDragged d then setState DragState d
      else if \<not> isHovered d then setState IdleState d
      else d)"
| "update DragState d =
     (let d1 = rotate_y DRAG_ROTATE_SPEED d
      in if \<not> isDragged d1 then setState IdleState d1 else d1)"

section \<open>The transform synchronizer\<close>

text \<open>
  \<open>updateTransform\<close> reads the two bounding rectangles and un-projects through the camera
  of the grid. The rectangles are inputs of the model; \<open>unproject\<close> stands for
  \<open>Vector3.unproject\<close> applied to the camera of the grid, a function of the library.
  The repository holds two versions of the renderer: one with an orthographic camera and
  one with a perspective camera.
\<close>

definition xNDC_ortho :: "DOMRect \<Rightarrow> DOMRect \<Rightarrow> number" where
  "xNDC_ortho rect gridRect =
     num_sub
       (num_mul
         (num_div
           (num_sub (num_add (rect_left rect) (num_div (rect_width rect) (Fin 2)))
             (rect_left gridRect))
           (rect_width gridRect))
         (Fin 2))
       (Fin 1)"

definition yNDC_ortho :: "DOMRect \<Rightarrow> DOMRect \<Rightarrow> number" where
  "yNDC_ortho rect gridRect =
     num_neg
       (num_sub
         (num_mul
           (num_div
             (num_sub (num_add (rect_top rect) (num_div (rect_height rect) (Fin 2)))
               (rect_top gridRect))
             (rect_height gridRect))
           (Fin 2))
         (Fin 1))"

definition updateTransform_ortho ::
  "(Vector3 \<Rightarrow> Vector3) \<Rightarrow> DOMRect \<Rightarrow> DOMRect \<Rightarrow> DiceCrystal \<Rightarrow> DiceCrystal" where
  "updateTransform_ortho unproject rect gridRect d =
     (let xNDC = xNDC_ortho rect gridRect;
          yNDC = yNDC_ortho rect gridRect;
          worldPosition = unproject (Vector3 xNDC yNDC (Fin 0));
          scaleFactor = num_mul (rect_width rect) SCALE;
          d1 = d\<lparr>baseScale := Vector3 scaleFactor scaleFactor scaleFactor\<rparr>
      in d1\<lparr>basePosition :=
              Vector3 (vec_x worldPosition) (vec_y worldPosition) (vec_z (basePosition d1))\<rparr>)"

text \<open>The perspective version multiplies by its local constant \<open>sc = 200\<close>.\<close>

definition sc :: number where
  "sc = Fin 200"

definition xNDC_persp :: "DOMRect \<Rightarrow> DOMRect \<Rightarrow> number" where
  "xNDC_persp rect gridRect =
     num_sub
       (num_mul
         (num_div
           (num_sub (num_add (rect_left rect) (num_div (rect_width rect) (Fin 2)))
             (rect_left gridRect))
           (rect_width gridRect))
         sc)
       (Fin 1)"

definition yNDC_persp :: "DOMRect \<Rightarrow> DOMRect \<Rightarrow> number" where
  "yNDC_persp rect gridRect =
     num_neg
       (num_sub
         (num_mul
           (num_div
             (num_sub (num_add (rect_top rect) (num_div (rect_height rect) (Fin 2)))
               (rect_top gridRect))
             (rect_height gridRect))
           sc)
         (Fin 1))"

definition updateTransform_persp ::
  "(Vector3 \<Rightarrow> Vector3) \<Rightarrow> DOMRect \<Rightarrow> DOMRect \<Rightarrow> DiceCrystal \<Rightarrow> DiceCrystal" where
  "updateTransform_persp unproject rect gridRect d =
     (let xNDC = xNDC_persp rect gridRect;
          yNDC = yNDC_persp rect gridRect;
          worldPosition = unproject (Vector3 xNDC yNDC (Fin 0))
      in d\<lparr>basePosition :=
             Vector3 (vec_x worldPosition) (vec_y worldPosition) (vec_z (basePosition d))\<rparr>)"

section \<open>The frame\<close>

definition tick_ortho :: "DiceCrystal \<Rightarrow> DiceCrystal" where
  "tick_ortho d =
     (let d1 = update (state d) d;
          d2 = d1\<lparr>mesh_scale := multiplyVectors (baseScale d1) (scale d1)\<rparr>;
          d3 = d2\<lparr>mesh_position := addVectors (basePosition d2) (position d2)\<rparr>
      in d3\<lparr>basePosition :=
              set_z (if isHovered d3 \<or> isDragged d3 then Fin 400 else Fin 0)
                (basePosition d3)\<rparr>)"

definition tick_persp :: "DiceCrystal \<Rightarrow> DiceCrystal" where
  "tick_persp d =
     (let d1 = update (state d) d;
          d2 = d1\<lparr>mesh_scale := multiplyVectors (baseScale d1) (scale d1)\<rparr>
      in d2\<lparr>mesh_position := addVectors (basePosition d2) (position d2)\<rparr>)"

section \<open>Construction\<close>

text \<open>
  The field initialisers, then the body of the constructor. A new \<open>THREE.Mesh\<close> has position
  and rotation zero and scale one; the constructor sets its rotation to \<open>(0.1, 0, 0.3)\<close>,
  calls \<open>setState\<close> and synchronizes the transform once.
\<close>

definition fields_ortho :: DiceCrystal where
  "fields_ortho =
     \<lparr>state = IdleState, isHovered = False, isDragged = False,
      mesh_position = Vector3_new, mesh_scale = Vector3 (Fin 1) (Fin 1) (Fin 1),
      mesh_rotation = Vector3_new,
      position = Vector3_new, basePosition = Vector3_new,
      scale = Vector3_new, baseScale = Vector3_new,
      tweens = [], trace = []\<rparr>"

definition fields_persp :: DiceCrystal where
  "fields_persp =
     \<lparr>state = IdleState, isHovered = False, isDragged = False,
      mesh_position = Vector3_new, mesh_scale = Vector3 (Fin 1) (Fin 1) (Fin 1),
      mesh_rotation = Vector3_new,
      position = Vector3_new, basePosition = Vector3_new,
      scale = Vector3 (Fin 1) (Fin 1) (Fin 1), baseScale = Vector3 (Fin 1) (Fin 1) (Fin 1),
      tweens = [], trace = []\<rparr>"

definition DiceCrystal_ortho ::
  "(Vector3 \<Rightarrow> Vector3) \<Rightarrow> DOMRect \<Rightarrow> DOMRect \<Rightarrow> DiceCrystal" where
  "DiceCrystal_ortho unproject rect gridRect =
     updateTransform_ortho unproject rect gridRect
       (setState IdleState
         (fields_ortho\<lparr>mesh_rotation := Vector3 (Fin (1 / 10)) (Fin 0) (Fin (3 / 10))\<rparr>))"

definition DiceCrystal_persp ::
  "(Vector3 \<Rightarrow> Vector3) \<Rightarrow> DOMRect \<Rightarrow> DOMRect \<Rightarrow> DiceCrystal" where
  "DiceCrystal_persp unproject rect gridRect =
     updateTransform_persp unproject rect gridRect
       (setState IdleState
         (fields_persp\<lparr>mesh_rotation := Vector3 (Fin (1 / 10)) (Fin 0) (Fin (3 / 10))\<rparr>))"

section \<open>The lifetime of an object\<close>

text \<open>
  After construction an object is driven from outside only: the input handling sets the two
  flags, a layout change or a resize calls \<open>updateTransform\<close> with the rectangles and the
  camera of that moment, and the render loop calls \<open>tick\<close>.
\<close>

datatype input =
  Set_isHovered bool
| Set_isDragged bool
| Layout_changed "Vector3 \<Rightarrow> Vector3" DOMRect DOMRect
| Frame

fun step_ortho :: "input \<Rightarrow> DiceCrystal \<Rightarrow> DiceCrystal" where
  "step_ortho (Set_isHovered b) d = d\<lparr>isHovered := b\<rparr>"
| "step_ortho (Set_isDragged b) d = d\<lparr>isDragged := b\<rparr>"
| "step_ortho (Layout_changed unproject rect gridRect) d =
     updateTransform_ortho unproject rect gridRect d"
| "step_ortho Frame d = tick_ortho d"

fun step_persp :: "input \<Rightarrow> DiceCrystal \<Rightarrow> DiceCrystal" where
  "step_persp (Set_isHovered b) d = d\<lparr>isHovered := b\<rparr>"
| "step_persp (Set_isDragged b) d = d\<lparr>isDragged := b\<rparr>"
| "step_persp (Layout_changed unproject rect gridRect) d =
     updateTransform_persp unproject rect gridRect d"
| "step_persp Frame d = tick_persp d"

fun run_ortho :: "input list \<Rightarrow> DiceCrystal \<Rightarrow> DiceCrystal" where
  "run_ortho [] d = d"
| "run_ortho (i # is) d = run_ortho is (step_ortho i d)"

fun run_persp :: "input list \<Rightarrow> DiceCrystal \<Rightarrow> DiceCrystal" where
  "run_persp [] d = d"
| "run_persp (i # is) d = run_persp is (step_persp i d)"

text \<open>A \<open>setState\<close> call that asks for the state the object is already in.\<close>

fun reenters :: "event \<Rightarrow> bool" where
  "reenters (Call_setState cur new) = (cur = new)"
| "reenters (Call_exit s) = False"
| "reenters (Assign_state s) = False"
| "reenters (Call_enter s) = False"

text \<open>A finite angle in the half-open interval from zero to one full turn.\<close>

definition full_turn :: real where
  "full_turn = 884279719003555 / 140737488355328"

fun in_turn :: "number \<Rightarrow> bool" where
  "in_turn (Fin r) = (0 \<le> r \<and> r < full_turn)"
| "in_turn PosInf = False"
| "in_turn NegInf = False"
| "in_turn NaN = False"

text \<open>
  Concrete inputs: a 100 by 100 element at the top left corner of a 200 by 200 viewport, and
  a viewport that has not been laid out yet.
\<close>

definition example_rect :: DOMRect where
  "example_rect =
     \<lparr>rect_left = Fin 0, rect_top = Fin 0, rect_width = Fin 100, rect_height = Fin 100\<rparr>"

definition example_viewport :: DOMRect where
  "example_viewport =
     \<lparr>rect_left = Fin 0, rect_top = Fin 0, rect_width = Fin 200, rect_height = Fin 200\<rparr>"

definition zero_viewport :: DOMRect where
  "zero_viewport =
     \<lparr>rect_left = Fin 0, rect_top = Fin 0, rect_width = Fin 0, rect_height = Fin 0\<rparr>"

section \<open>Basic facts\<close>

lemma state_record_event [simp]: "state (record_event e d) = state d"
  by (simp add: record_event_def)

lemma state_enter [simp]: "state (enter s d) = state d"
  by (cases s) (simp_all add: gsap_to_def gsap_killTweensOf_def record_event_def)

lemma state_exit [simp]: "state (exit s d) = state d"
  by (cases s) (simp_all add: gsap_to_def gsap_killTweensOf_def record_event_def)

lemma state_setState [simp]: "state (setState n d) = n"
  by (simp add: setState_def Let_def)

lemma trace_enter [simp]: "trace (enter s d) = trace d @ [Call_enter s]"
  by (cases s) (simp_all add: gsap_to_def gsap_killTweensOf_def record_event_def)

lemma trace_exit [simp]: "trace (exit s d) = trace d @ [Call_exit s]"
  by (cases s) (simp_all add: gsap_to_def gsap_killTweensOf_def record_event_def)

lemma trace_setState:
  "trace (setState n d) =
     trace d @ [Call_setState (state d) n, Call_exit (state d), Assign_state n, Call_enter n]"
  by (simp add: setState_def Let_def record_event_def)

lemma flags_rotate_y [simp]:
  "isDragged (rotate_y v d) = isDragged d"
  "isHovered (rotate_y v d) = isHovered d"
  "state (rotate_y v d) = state d"
  "trace (rotate_y v d) = trace d"
  by (simp_all add: rotate_y_def)

lemma setState_frame [simp]:
  "isDragged (setState n d) = isDragged d"
  "isHovered (setState n d) = isHovered d"
  "position (setState n d) = position d"
  "basePosition (setState n d) = basePosition d"
  "scale (setState n d) = scale d"
  "baseScale (setState n d) = baseScale d"
  "mesh_rotation (setState n d) = mesh_rotation d"
  by (cases n; cases "state d";
      simp add: setState_def Let_def gsap_to_def gsap_killTweensOf_def record_event_def)+

lemma rotate_y_frame [simp]:
  "position (rotate_y v d) = position d"
  "basePosition (rotate_y v d) = basePosition d"
  "scale (rotate_y v d) = scale d"
  "baseScale (rotate_y v d) = baseScale d"
  by (simp_all add: rotate_y_def)

lemma update_frame [simp]:
  "isDragged (update s d) = isDragged d"
  "isHovered (update s d) = isHovered d"
  "position (update s d) = position d"
  "basePosition (update s d) = basePosition d"
  "scale (update s d) = scale d"
  "baseScale (update s d) = baseScale d"
  by (cases s; simp add: Let_def)+

section \<open>Normalized device coordinates\<close>

text \<open>
  With finite rectangles and a viewport of nonzero width and height, the orthographic
  version computes the coordinates of the centre by the formula of the specification.
\<close>

lemma ndc_ortho_formula:
  assumes "gw \<noteq> 0" and "gh \<noteq> 0"
  shows "xNDC_ortho
           \<lparr>rect_left = Fin l, rect_top = Fin t, rect_width = Fin w, rect_height = Fin h\<rparr>
           \<lparr>rect_left = Fin gl, rect_top = Fin gt, rect_width = Fin gw, rect_height = Fin gh\<rparr>
         = Fin (((l + w / 2) - gl) / gw * 2 - 1)"
    and "yNDC_ortho
           \<lparr>rect_left = Fin l, rect_top = Fin t, rect_width = Fin w, rect_height = Fin h\<rparr>
           \<lparr>rect_left = Fin gl, rect_top = Fin gt, rect_width = Fin gw, rect_height = Fin gh\<rparr>
         = Fin (- (((t + h / 2) - gt) / gh * 2 - 1))"
  using assms by (simp_all add: xNDC_ortho_def yNDC_ortho_def num_sub_def)

text \<open>
  C1: the synchronizer computes \<open>ndcX = ((centerX - viewportLeft) / viewportWidth) * 2 - 1\<close>
  and \<open>ndcY = -(((centerY - viewportTop) / viewportHeight) * 2 - 1)\<close> in both versions.
  The perspective version does not: it multiplies by 200 where the formula has 2. For the
  example element, whose centre is a quarter of the way across the example viewport, the
  formula gives \<open>(-1/2, 1/2)\<close>, which is what the orthographic version computes; the
  perspective version computes \<open>(49, -49)\<close>.
\<close>

theorem persp_ndc_scaled_by_200:
  "xNDC_persp example_rect example_viewport = Fin 49 \<and>
   yNDC_persp example_rect example_viewport = Fin (- 49) \<and>
   xNDC_ortho example_rect example_viewport = Fin (- (1 / 2)) \<and>
   yNDC_ortho example_rect example_viewport = Fin (1 / 2)"
  by (simp add: xNDC_persp_def yNDC_persp_def xNDC_ortho_def yNDC_ortho_def num_sub_def sc_def
      example_rect_def example_viewport_def)

section \<open>A viewport of size zero\<close>

lemma div_zero_not_finite: "\<not> isFinite (num_div a (Fin 0))"
  by (cases a) simp_all

lemma mul_not_finite: "\<not> isFinite a \<Longrightarrow> \<not> isFinite (num_mul a (Fin b))"
  by (cases a) simp_all

lemma sub_not_finite: "\<not> isFinite a \<Longrightarrow> \<not> isFinite (num_sub a (Fin b))"
  by (cases a) (simp_all add: num_sub_def)

lemma neg_not_finite: "\<not> isFinite a \<Longrightarrow> \<not> isFinite (num_neg a)"
  by (cases a) simp_all

text \<open>
  C2, as the code has it: there is no guard and no fallback. When the width of the viewport
  rectangle is zero the division is carried out all the same and the x coordinate is not a
  finite number (it is an infinity or NaN); likewise the y coordinate when the height is
  zero. This holds in both versions and for every layout rectangle.
\<close>

theorem zero_viewport_not_finite:
  "(rect_width gridRect = Fin 0 \<longrightarrow>
      \<not> isFinite (xNDC_ortho rect gridRect) \<and> \<not> isFinite (xNDC_persp rect gridRect)) \<and>
   (rect_height gridRect = Fin 0 \<longrightarrow>
      \<not> isFinite (yNDC_ortho rect gridRect) \<and> \<not> isFinite (yNDC_persp rect gridRect))"
  by (simp add: xNDC_persp_def yNDC_persp_def xNDC_ortho_def yNDC_ortho_def sc_def
      div_zero_not_finite mul_not_finite sub_not_finite neg_not_finite)

theorem zero_viewport_not_finite_witness:
  "rect_width zero_viewport = Fin 0 \<and> rect_height zero_viewport = Fin 0 \<and>
   \<not> isFinite (xNDC_ortho example_rect zero_viewport) \<and>
   \<not> isFinite (xNDC_persp example_rect zero_viewport) \<and>
   \<not> isFinite (yNDC_ortho example_rect zero_viewport) \<and>
   \<not> isFinite (yNDC_persp example_rect zero_viewport)"
  using zero_viewport_not_finite [of zero_viewport example_rect]
  by (simp add: zero_viewport_def)

text \<open>
  C2 as stated fails: for the example element in the viewport of size zero the coordinates
  are \<open>(+\<infinity>, -\<infinity>)\<close>, not a fallback such as \<open>(0, 0)\<close>, and they are what the base
  position is computed from. An element of size zero at the corner of that viewport gives
  \<open>0 / 0\<close>, which is NaN.
\<close>

theorem zero_viewport_counterexample:
  "xNDC_ortho example_rect zero_viewport = PosInf \<and>
   yNDC_ortho example_rect zero_viewport = NegInf \<and>
   xNDC_persp example_rect zero_viewport = PosInf \<and>
   yNDC_persp example_rect zero_viewport = NegInf \<and>
   xNDC_ortho zero_viewport zero_viewport = NaN \<and>
   basePosition (DiceCrystal_ortho (\<lambda>v. v) example_rect zero_viewport)
     = Vector3 PosInf NegInf (Fin 0)"
  by (simp add: xNDC_persp_def yNDC_persp_def xNDC_ortho_def yNDC_ortho_def num_sub_def sc_def
      example_rect_def zero_viewport_def DiceCrystal_ortho_def updateTransform_ortho_def Let_def
      fields_ortho_def Vector3_new_def)

section \<open>The state machine\<close>

text \<open>
  C3: whatever state the object is in and whatever \<open>isHovered\<close> is, if \<open>isDragged\<close> is
  set then after one \<open>update\<close> of its current state the object is in \<open>DragState\<close>.
\<close>

theorem dragged_flag_dominates:
  "isDragged d \<Longrightarrow> state (update (state d) d) = DragState"
  by (cases "state d") (simp_all add: Let_def)

theorem dragged_flag_dominates_witness:
  "isDragged (fields_ortho\<lparr>state := HoverState, isDragged := True, isHovered := True\<rparr>) \<and>
   state (update (state (fields_ortho\<lparr>state := HoverState, isDragged := True, isHovered := True\<rparr>))
     (fields_ortho\<lparr>state := HoverState, isDragged := True, isHovered := True\<rparr>)) = DragState"
  using dragged_flag_dominates
    [of "fields_ortho\<lparr>state := HoverState, isDragged := True, isHovered := True\<rparr>"]
  by (simp add: fields_ortho_def)

text \<open>
  C4: an object in \<open>DragState\<close> whose \<open>isDragged\<close> flag is clear goes to \<open>IdleState\<close> at
  the next \<open>update\<close>, never to \<open>HoverState\<close>, whatever \<open>isHovered\<close> is.
\<close>

theorem leaving_drag_goes_idle:
  "state d = DragState \<Longrightarrow> \<not> isDragged d \<Longrightarrow>
     state (update (state d) d) = IdleState \<and> state (update (state d) d) \<noteq> HoverState"
  by (simp add: Let_def)

theorem leaving_drag_goes_idle_witness:
  "state (fields_ortho\<lparr>state := DragState, isHovered := True\<rparr>) = DragState \<and>
   \<not> isDragged (fields_ortho\<lparr>state := DragState, isHovered := True\<rparr>) \<and>
   isHovered (fields_ortho\<lparr>state := DragState, isHovered := True\<rparr>) \<and>
   state (update (state (fields_ortho\<lparr>state := DragState, isHovered := True\<rparr>))
     (fields_ortho\<lparr>state := DragState, isHovered := True\<rparr>)) = IdleState"
  using leaving_drag_goes_idle [of "fields_ortho\<lparr>state := DragState, isHovered := True\<rparr>"]
  by (simp add: fields_ortho_def)

section \<open>The transition protocol\<close>

lemma filter_reenters_setState:
  "filter reenters (trace (setState n d)) =
     filter reenters (trace d) @ (if state d = n then [Call_setState n n] else [])"
  by (simp add: trace_setState)

lemma filter_reenters_update:
  "filter reenters (trace (update (state d) d)) = filter reenters (trace d)"
  by (cases "state d") (simp_all add: Let_def filter_reenters_setState)

lemma trace_updateTransform [simp]:
  "trace (updateTransform_ortho u r g d) = trace d"
  "trace (updateTransform_persp u r g d) = trace d"
  by (simp_all add: updateTransform_ortho_def updateTransform_persp_def Let_def)

lemma trace_tick [simp]:
  "trace (tick_ortho d) = trace (update (state d) d)"
  "trace (tick_persp d) = trace (update (state d) d)"
  by (simp_all add: tick_ortho_def tick_persp_def Let_def)

lemma filter_reenters_step:
  "filter reenters (trace (step_ortho i d)) = filter reenters (trace d)"
  "filter reenters (trace (step_persp i d)) = filter reenters (trace d)"
  by (cases i; simp add: filter_reenters_update)+

lemma filter_reenters_run:
  "filter reenters (trace (run_ortho is d)) = filter reenters (trace d)"
  "filter reenters (trace (run_persp is d)) = filter reenters (trace d)"
  by (induction "is" arbitrary: d; simp add: filter_reenters_step)+

lemma trace_new:
  "trace (DiceCrystal_ortho u r g) =
     [Call_setState IdleState IdleState, Call_exit IdleState, Assign_state IdleState,
      Call_enter IdleState]"
  "trace (DiceCrystal_persp u r g) =
     [Call_setState IdleState IdleState, Call_exit IdleState, Assign_state IdleState,
      Call_enter IdleState]"
  by (simp_all add: DiceCrystal_ortho_def DiceCrystal_persp_def trace_setState fields_ortho_def
      fields_persp_def)

text \<open>
  C5, as the code has it: every call of \<open>setState\<close> runs the \<open>exit\<close> of the current state,
  then assigns the new state, then runs the \<open>enter\<close> of the new state. No \<open>update\<close> asks
  for the state the object is in. Over a whole lifetime (construction, then any sequence of
  flag changes, layout changes and frames) exactly one call names the current state: the
  \<open>setState(IdleState)\<close> of the constructor, on an object whose \<open>state\<close> field was
  initialised to \<open>IdleState\<close>.
\<close>

theorem setState_protocol:
  "trace (setState n d) =
     trace d @ [Call_setState (state d) n, Call_exit (state d), Assign_state n, Call_enter n] \<and>
   state (setState n d) = n \<and>
   filter reenters (trace (update (state d) d)) = filter reenters (trace d) \<and>
   filter reenters (trace (run_ortho is (DiceCrystal_ortho u r g))) =
     [Call_setState IdleState IdleState] \<and>
   filter reenters (trace (run_persp is (DiceCrystal_persp u r g))) =
     [Call_setState IdleState IdleState]"
  by (simp add: trace_setState filter_reenters_update filter_reenters_run trace_new)

text \<open>
  C5 as stated fails at construction: the first call of \<open>setState\<close> in the life of an
  object asks for \<open>IdleState\<close> while the object is in \<open>IdleState\<close>.
\<close>

theorem constructor_reenters_counterexample:
  "reenters (hd (trace (DiceCrystal_ortho (\<lambda>v. v) example_rect example_viewport))) \<and>
   trace (DiceCrystal_ortho (\<lambda>v. v) example_rect example_viewport) =
     [Call_setState IdleState IdleState, Call_exit IdleState, Assign_state IdleState,
      Call_enter IdleState] \<and>
   reenters (hd (trace (DiceCrystal_persp (\<lambda>v. v) example_rect example_viewport)))"
  by (simp add: DiceCrystal_ortho_def DiceCrystal_persp_def trace_setState fields_ortho_def
      fields_persp_def)

section \<open>Synchronizing the transform\<close>

text \<open>
  C6: for a viewport of nonzero width and height, a second \<open>updateTransform\<close> with the
  same rectangles and camera leaves the base position and the base scale as the first call
  left them, in both versions.
\<close>

theorem updateTransform_idempotent:
  assumes "rect_width gridRect \<noteq> Fin 0" and "rect_height gridRect \<noteq> Fin 0"
  shows "basePosition
           (updateTransform_ortho u rect gridRect (updateTransform_ortho u rect gridRect d))
           = basePosition (updateTransform_ortho u rect gridRect d) \<and>
         baseScale
           (updateTransform_ortho u rect gridRect (updateTransform_ortho u rect gridRect d))
           = baseScale (updateTransform_ortho u rect gridRect d) \<and>
         basePosition
           (updateTransform_persp u rect gridRect (updateTransform_persp u rect gridRect d))
           = basePosition (updateTransform_persp u rect gridRect d) \<and>
         baseScale
           (updateTransform_persp u rect gridRect (updateTransform_persp u rect gridRect d))
           = baseScale (updateTransform_persp u rect gridRect d)"
  by (simp add: updateTransform_ortho_def updateTransform_persp_def Let_def)

theorem updateTransform_idempotent_witness:
  "rect_width example_viewport \<noteq> Fin 0 \<and> rect_height example_viewport \<noteq> Fin 0 \<and>
   basePosition
     (updateTransform_ortho (\<lambda>v. v) example_rect example_viewport
       (updateTransform_ortho (\<lambda>v. v) example_rect example_viewport fields_ortho))
     = Vector3 (Fin (- (1 / 2))) (Fin (1 / 2)) (Fin 0) \<and>
   baseScale
     (updateTransform_ortho (\<lambda>v. v) example_rect example_viewport
       (updateTransform_ortho (\<lambda>v. v) example_rect example_viewport fields_ortho))
     = Vector3 (Fin 40) (Fin 40) (Fin 40)"
proof -
  have h: "rect_width example_viewport \<noteq> Fin 0" "rect_height example_viewport \<noteq> Fin 0"
    by (simp_all add: example_viewport_def)
  have first:
    "basePosition (updateTransform_ortho (\<lambda>v. v) example_rect example_viewport fields_ortho)
       = Vector3 (Fin (- (1 / 2))) (Fin (1 / 2)) (Fin 0)"
    "baseScale (updateTransform_ortho (\<lambda>v. v) example_rect example_viewport fields_ortho)
       = Vector3 (Fin 40) (Fin 40) (Fin 40)"
    by (simp_all add: updateTransform_ortho_def Let_def xNDC_ortho_def yNDC_ortho_def
        num_sub_def SCALE_def example_rect_def example_viewport_def fields_ortho_def
        Vector3_new_def)
  from updateTransform_idempotent [OF h, of "\<lambda>v. v" example_rect fields_ortho] h first
  show ?thesis by simp
qed

text \<open>
  C7: \<open>updateTransform\<close> takes the x and y of the base position from the un-projected point
  and leaves its z exactly as it was before the call, in both versions.
\<close>

theorem updateTransform_keeps_z:
  "vec_z (basePosition (updateTransform_ortho u rect gridRect d)) = vec_z (basePosition d) \<and>
   vec_x (basePosition (updateTransform_ortho u rect gridRect d))
     = vec_x (u (Vector3 (xNDC_ortho rect gridRect) (yNDC_ortho rect gridRect) (Fin 0))) \<and>
   vec_y (basePosition (updateTransform_ortho u rect gridRect d))
     = vec_y (u (Vector3 (xNDC_ortho rect gridRect) (yNDC_ortho rect gridRect) (Fin 0))) \<and>
   vec_z (basePosition (updateTransform_persp u rect gridRect d)) = vec_z (basePosition d) \<and>
   vec_x (basePosition (updateTransform_persp u rect gridRect d))
     = vec_x (u (Vector3 (xNDC_persp rect gridRect) (yNDC_persp rect gridRect) (Fin 0))) \<and>
   vec_y (basePosition (updateTransform_persp u rect gridRect d))
     = vec_y (u (Vector3 (xNDC_persp rect gridRect) (yNDC_persp rect gridRect) (Fin 0)))"
  by (simp add: updateTransform_ortho_def updateTransform_persp_def Let_def)

section \<open>Composition in a frame\<close>

text \<open>
  C8, as the code has it: \<open>tick\<close> composes the mesh scale as base scale times scale factor
  and the mesh position as base position plus position offset, from the fields as they are
  at that point of the frame. In the perspective version nothing changes afterwards, so both
  equations hold of the fields after the frame. The orthographic version then overwrites the
  z of the base position (400 when hovered or dragged, 0 otherwise): after the frame the
  scale equation and the x and y of the base position are as composed, and the mesh position
  is the sum with the base position of before the frame.
\<close>

theorem tick_composition:
  "mesh_scale (tick_ortho d) = multiplyVectors (baseScale (tick_ortho d)) (scale (tick_ortho d)) \<and>
   mesh_position (tick_ortho d) = addVectors (basePosition d) (position (tick_ortho d)) \<and>
   vec_x (basePosition (tick_ortho d)) = vec_x (basePosition d) \<and>
   vec_y (basePosition (tick_ortho d)) = vec_y (basePosition d) \<and>
   vec_z (basePosition (tick_ortho d)) = (if isHovered d \<or> isDragged d then Fin 400 else Fin 0) \<and>
   mesh_scale (tick_persp d) = multiplyVectors (baseScale (tick_persp d)) (scale (tick_persp d)) \<and>
   mesh_position (tick_persp d) =
     addVectors (basePosition (tick_persp d)) (position (tick_persp d))"
  by (simp add: tick_ortho_def tick_persp_def Let_def set_z_def)

text \<open>
  C8 as stated fails in the orthographic version: a new object is hovered and one frame
  runs. The mesh is at z = 0, the sum of the base position and the offset after the frame is
  at z = 400.
\<close>

theorem tick_composition_counterexample:
  "mesh_position
     (run_ortho [Set_isHovered True, Frame]
       (DiceCrystal_ortho (\<lambda>v. v) example_rect example_viewport))
     \<noteq> addVectors
       (basePosition
         (run_ortho [Set_isHovered True, Frame]
           (DiceCrystal_ortho (\<lambda>v. v) example_rect example_viewport)))
       (position
         (run_ortho [Set_isHovered True, Frame]
           (DiceCrystal_ortho (\<lambda>v. v) example_rect example_viewport))) \<and>
   mesh_position
     (run_ortho [Set_isHovered True, Frame]
       (DiceCrystal_ortho (\<lambda>v. v) example_rect example_viewport))
     = Vector3 (Fin (- (1 / 2))) (Fin (1 / 2)) (Fin 0) \<and>
   basePosition
     (run_ortho [Set_isHovered True, Frame]
       (DiceCrystal_ortho (\<lambda>v. v) example_rect example_viewport))
     = Vector3 (Fin (- (1 / 2))) (Fin (1 / 2)) (Fin 400)"
  by (simp add: tick_ortho_def Let_def set_z_def DiceCrystal_ortho_def updateTransform_ortho_def
      xNDC_ortho_def yNDC_ortho_def num_sub_def addVectors_def fields_ortho_def Vector3_new_def
      example_rect_def example_viewport_def)

section \<open>The idle rotation\<close>

lemma full_turn_pos: "0 < full_turn"
  by (simp add: full_turn_def)

lemma two_pi: "num_mul Math_PI (Fin 2) = Fin full_turn"
  by (simp add: Math_PI_def full_turn_def)

lemma rem_range:
  assumes "0 \<le> a" and "0 < b"
  shows "0 \<le> a - b * of_int (trunc (a / b)) \<and> a - b * of_int (trunc (a / b)) < b"
proof -
  from assms have q: "0 \<le> a / b" by simp
  then have t: "trunc (a / b) = \<lfloor>a / b\<rfloor>" by (simp add: trunc_def)
  from assms(2) have lo: "of_int \<lfloor>a / b\<rfloor> * b \<le> a" by (rule floor_divide_lower)
  from assms(2) have hi: "a < (of_int \<lfloor>a / b\<rfloor> + 1) * b" by (rule floor_divide_upper)
  from lo hi show ?thesis unfolding t by (simp add: algebra_simps)
qed

lemma rem_small:
  assumes "0 \<le> a" and "a < b"
  shows "a - b * of_int (trunc (a / b)) = a"
proof -
  from assms have "0 \<le> a / b" "a / b < 1" by simp_all
  then have "\<lfloor>a / b\<rfloor> = 0" by (simp add: floor_eq_iff)
  with \<open>0 \<le> a / b\<close> show ?thesis by (simp add: trunc_def)
qed

lemma rem_once:
  assumes "b \<le> a" and "a < 2 * b" and "0 < b"
  shows "a - b * of_int (trunc (a / b)) = a - b"
proof -
  from assms have "1 \<le> a / b" "a / b < 2" by (simp_all add: field_simps)
  then have "\<lfloor>a / b\<rfloor> = 1" by (simp add: floor_eq_iff)
  with \<open>1 \<le> a / b\<close> show ?thesis by (simp add: trunc_def)
qed

lemma idle_update_angle:
  assumes "vec_y (mesh_rotation d) = Fin r"
  shows "vec_y (mesh_rotation (update IdleState d)) =
           Fin (r + 5 / 1000 - full_turn * of_int (trunc ((r + 5 / 1000) / full_turn)))"
  using assms full_turn_pos
  by (simp add: Let_def rotate_y_def set_y_def two_pi IDLE_ROTATE_SPEED_def)

lemma idle_update_stays:
  assumes "state d = IdleState" and "\<not> isDragged d" and "\<not> isHovered d"
  shows "state (update (state d) d) = IdleState"
  using assms by (simp add: Let_def)

lemma idle_update_in_turn:
  assumes "vec_y (mesh_rotation d) = Fin r" and "0 \<le> r"
  shows "in_turn (vec_y (mesh_rotation (update IdleState d)))"
  using assms rem_range [of "r + 5 / 1000" full_turn] full_turn_pos
  by (simp add: idle_update_angle del: update.simps)

lemma idle_run_in_turn:
  assumes "state d = IdleState" and "\<not> isDragged d" and "\<not> isHovered d"
    and "vec_y (mesh_rotation d) = Fin r" and "0 \<le> r"
  shows "state (((\<lambda>d. update (state d) d) ^^ Suc n) d) = IdleState \<and>
         in_turn (vec_y (mesh_rotation (((\<lambda>d. update (state d) d) ^^ Suc n) d)))"
proof (induction n)
  case 0
  from assms idle_update_in_turn [OF assms(4,5)] idle_update_stays [OF assms(1-3)]
  show ?case by (simp del: update.simps)
next
  case (Suc n)
  let ?e = "((\<lambda>d. update (state d) d) ^^ Suc n) d"
  from Suc have st: "state ?e = IdleState" and it: "in_turn (vec_y (mesh_rotation ?e))"
    by simp_all
  have fl: "\<not> isDragged ?e" "\<not> isHovered ?e"
    using assms(2,3) by (induction n) simp_all
  from it obtain r' where r': "vec_y (mesh_rotation ?e) = Fin r'" "0 \<le> r'"
    by (cases "vec_y (mesh_rotation ?e)") simp_all
  have "((\<lambda>d. update (state d) d) ^^ Suc (Suc n)) d = update IdleState ?e"
    using st by (simp del: update.simps)
  then show ?case
    using idle_update_in_turn [OF r'] idle_update_stays [OF st fl] st
    by (simp del: update.simps)
qed

text \<open>
  C9: an idle object with both flags clear and a finite angle that is not negative, as the
  angle of every object is from construction on, is updated any number of times in a row.
  After each update the y rotation is a finite angle in the half-open interval from zero to
  one full turn. An update from an angle inside the interval adds the idle speed 0.005 when
  the sum stays below a full turn, and otherwise wraps by subtracting one full turn.
\<close>

theorem idle_rotation_wraps:
  assumes "state d = IdleState" and "\<not> isDragged d" and "\<not> isHovered d"
    and "vec_y (mesh_rotation d) = Fin r" and "0 \<le> r"
  shows "in_turn (vec_y (mesh_rotation (((\<lambda>d. update (state d) d) ^^ Suc n) d))) \<and>
         (r < full_turn \<longrightarrow>
            vec_y (mesh_rotation (update (state d) d)) =
              Fin (if r + 5 / 1000 < full_turn then r + 5 / 1000
                   else r + 5 / 1000 - full_turn))"
proof -
  have step: "vec_y (mesh_rotation (update (state d) d)) =
      Fin (if r + 5 / 1000 < full_turn then r + 5 / 1000 else r + 5 / 1000 - full_turn)"
    if lt: "r < full_turn"
  proof (cases "r + 5 / 1000 < full_turn")
    case True
    with assms(5) have "r + 5 / 1000 - full_turn * of_int (trunc ((r + 5 / 1000) / full_turn))
        = r + 5 / 1000"
      by (intro rem_small) simp_all
    with True assms(1,4) show ?thesis by (simp add: idle_update_angle del: update.simps)
  next
    case False
    have "5 / 1000 < full_turn" by (simp add: full_turn_def)
    with False lt have "r + 5 / 1000 - full_turn * of_int (trunc ((r + 5 / 1000) / full_turn))
        = r + 5 / 1000 - full_turn"
      using full_turn_pos by (intro rem_once) simp_all
    with False assms(1,4) show ?thesis by (simp add: idle_update_angle del: update.simps)
  qed
  from idle_run_in_turn [OF assms] step show ?thesis by blast
qed

theorem idle_rotation_wraps_witness:
  "state (DiceCrystal_ortho (\<lambda>v. v) example_rect example_viewport) = IdleState \<and>
   \<not> isDragged (DiceCrystal_ortho (\<lambda>v. v) example_rect example_viewport) \<and>
   \<not> isHovered (DiceCrystal_ortho (\<lambda>v. v) example_rect example_viewport) \<and>
   vec_y (mesh_rotation (DiceCrystal_ortho (\<lambda>v. v) example_rect example_viewport)) = Fin 0 \<and>
   in_turn (vec_y (mesh_rotation
     (((\<lambda>d. update (state d) d) ^^ Suc 2)
       (DiceCrystal_ortho (\<lambda>v. v) example_rect example_viewport)))) \<and>
   vec_y (mesh_rotation
     (update IdleState (DiceCrystal_ortho (\<lambda>v. v) example_rect example_viewport))) =
     Fin (5 / 1000)"
proof -
  let ?d = "DiceCrystal_ortho (\<lambda>v. v) example_rect example_viewport"
  have h: "state ?d = IdleState" "\<not> isDragged ?d" "\<not> isHovered ?d"
    "vec_y (mesh_rotation ?d) = Fin 0"
    by (simp_all add: DiceCrystal_ortho_def updateTransform_ortho_def Let_def fields_ortho_def)
  have z: "(0::real) \<le> 0" by simp
  have ft: "(0::real) < full_turn \<and> (5 / 1000 :: real) < full_turn"
    by (simp add: full_turn_def)
  from idle_rotation_wraps [OF h z, of 2] h ft show ?thesis by (simp del: update.simps)
qed

section \<open>The scale of a new object\<close>

text \<open>
  C10: in the orthographic version a new object has the scale factor \<open>(0, 0, 0)\<close>, with
  the animation towards 1 of the idle state requested and nothing else, so for an element
  of finite width every frame composes the mesh scale \<open>(0, 0, 0)\<close> as long as the engine
  has not moved the factor. In the perspective version the factor starts at \<open>(1, 1, 1)\<close>.
\<close>

theorem initial_scale_factor:
  assumes "rect_width rect = Fin w"
  shows "scale (DiceCrystal_ortho u rect gridRect) = Vector3 (Fin 0) (Fin 0) (Fin 0) \<and>
         tweens (DiceCrystal_ortho u rect gridRect) = [uniform_tween Target_scale 1 (4 / 10)] \<and>
         mesh_scale ((tick_ortho ^^ Suc n) (DiceCrystal_ortho u rect gridRect))
           = Vector3 (Fin 0) (Fin 0) (Fin 0) \<and>
         scale (DiceCrystal_persp u rect gridRect) = Vector3 (Fin 1) (Fin 1) (Fin 1)"
proof -
  let ?d = "DiceCrystal_ortho u rect gridRect"
  have s: "scale ?d = Vector3 (Fin 0) (Fin 0) (Fin 0)"
    by (simp add: DiceCrystal_ortho_def updateTransform_ortho_def Let_def fields_ortho_def
        Vector3_new_def)
  have b: "baseScale ?d = Vector3 (Fin (w * (4 / 10))) (Fin (w * (4 / 10))) (Fin (w * (4 / 10)))"
    using assms
    by (simp add: DiceCrystal_ortho_def updateTransform_ortho_def Let_def SCALE_def)
  have t: "tweens ?d = [uniform_tween Target_scale 1 (4 / 10)]"
    by (simp add: DiceCrystal_ortho_def updateTransform_ortho_def Let_def fields_ortho_def
        setState_def gsap_to_def record_event_def)
  have keep: "scale (tick_ortho e) = scale e \<and> baseScale (tick_ortho e) = baseScale e" for e
    by (simp add: tick_ortho_def Let_def)
  have inv: "scale ((tick_ortho ^^ k) ?d) = scale ?d \<and>
      baseScale ((tick_ortho ^^ k) ?d) = baseScale ?d" for k
    by (induction k) (simp_all add: keep)
  have m: "mesh_scale (tick_ortho e) = multiplyVectors (baseScale e) (scale e)" for e
    by (simp add: tick_ortho_def Let_def)
  have "mesh_scale ((tick_ortho ^^ Suc n) ?d) = multiplyVectors (baseScale ?d) (scale ?d)"
    using inv [of n] by (simp add: m)
  then have ms: "mesh_scale ((tick_ortho ^^ Suc n) ?d) = Vector3 (Fin 0) (Fin 0) (Fin 0)"
    by (simp add: s b multiplyVectors_def)
  have p: "scale (DiceCrystal_persp u rect gridRect) = Vector3 (Fin 1) (Fin 1) (Fin 1)"
    by (simp add: DiceCrystal_persp_def updateTransform_persp_def Let_def fields_persp_def)
  from s t ms p show ?thesis by blast
qed

theorem initial_scale_factor_witness:
  "rect_width example_rect = Fin 100 \<and>
   scale (DiceCrystal_ortho (\<lambda>v. v) example_rect example_viewport)
     = Vector3 (Fin 0) (Fin 0) (Fin 0) \<and>
   mesh_scale ((tick_ortho ^^ Suc 0) (DiceCrystal_ortho (\<lambda>v. v) example_rect example_viewport))
     = Vector3 (Fin 0) (Fin 0) (Fin 0) \<and>
   scale (DiceCrystal_persp (\<lambda>v. v) example_rect example_viewport)
     = Vector3 (Fin 1) (Fin 1) (Fin 1)"
proof -
  have h: "rect_width example_rect = Fin 100" by (simp add: example_rect_def)
  from initial_scale_factor [OF h, of "\<lambda>v. v" example_viewport 0] h show ?thesis by simp
qed

end
